theory Spec2Isabelle
  imports Main
begin

section \<open>The volume admission webhook: data model\<close>

text \<open>
  A shallow embedding of \<^verbatim>\<open>server/admission.go\<close>. Go structs are records; nil-able
  pointers, maps and slices whose nil-ness the code inspects are options; the loops of
  \<^verbatim>\<open>HandleAdmission\<close> are recursive functions over the slices they range over,
  carrying the loop index. The JSON decoder and encoder belong to the Kubernetes
  libraries and are parameters of the model.
\<close>

subsection \<open>Constants\<close>

definition MountConfigLabel :: string where
  "MountConfigLabel = ''toolforge.org/mount-storage''"

definition MountAll :: string where
  "MountAll = ''all''"

definition MountNone :: string where
  "MountNone = ''none''"

subsection \<open>Kubernetes objects (the fields the webhook reads)\<close>

record HostPathVolumeSource =
  hpPath :: string
  hpType :: "string option"

text \<open>\<^verbatim>\<open>corev1.Volume\<close>: the name and the \<^verbatim>\<open>HostPath\<close> pointer (nil for every other source).\<close>

record PodVolume =
  pvName :: string
  pvHostPath :: "HostPathVolumeSource option"

record VolumeMount =
  vmMountPath :: string
  vmName :: string
  vmReadOnly :: bool

record EnvVar =
  evName :: string
  evValue :: string

text \<open>
  \<^verbatim>\<open>container.Env == nil\<close> is tested by the code, so \<open>cEnv\<close> is an option: \<open>None\<close> is
  the nil slice, \<open>Some []\<close> the empty slice decoded from \<^verbatim>\<open>"env": []\<close>. Volume mounts are
  only measured with \<^verbatim>\<open>len\<close>, where nil and empty agree.
\<close>

record Container =
  cName :: string
  cWorkingDir :: string
  cEnv :: "EnvVar list option"
  cVolumeMounts :: "VolumeMount list"

record Pod =
  podLabels :: "string \<rightharpoonup> string"
  podVolumes :: "PodVolume list"
  podContainers :: "Container list"
  podNodeSelector :: "(string \<rightharpoonup> string) option"

subsection \<open>Patch operations and the volume policy\<close>

text \<open>The payloads that \<^verbatim>\<open>HandleAdmission\<close> stores in the \<^verbatim>\<open>interface{}\<close> field.\<close>

datatype PatchValue =
    NoValue
  | EmptyStringArray
  | EmptyEnvArray
  | VolumeValue PodVolume
  | VolumeMountValue VolumeMount
  | EnvVarValue EnvVar
  | EmptyStringMap
  | StringValue string

record PatchOperation =
  Op :: string
  Path :: string
  Value :: PatchValue

record Volume =
  volName :: string
  volPath :: string
  volType :: string
  volReadOnly :: bool

record VolumeAdmission =
  Volumes :: "Volume list"

subsection \<open>Admission request and response\<close>

record 'raw AdmissionRequest =
  reqUID :: string
  reqNamespace :: string
  reqObject :: 'raw

text \<open>
  The status message. The hostPath denial formats the volume index, its name and the
  \<^verbatim>\<open>*HostPathVolumeSource\<close> pointer with \<^verbatim>\<open>%s\<close>; the rendering of the pointer is not
  modelled, the three arguments are kept.
\<close>

datatype StatusMessage =
    Message string
  | HostPathMessage nat string HostPathVolumeSource

datatype PatchType = PatchTypeJSONPatch

record 'bytes AdmissionResponse =
  respUID :: string
  Allowed :: bool
  Result :: "StatusMessage option"
  Patch :: "'bytes option"
  RespPatchType :: "PatchType option"

section \<open>Library functions used by the webhook\<close>

text \<open>\<^verbatim>\<open>strings.HasPrefix\<close>.\<close>

definition HasPrefix :: "string \<Rightarrow> string \<Rightarrow> bool" where
  "HasPrefix s p = (take (length p) s = p)"

text \<open>\<^verbatim>\<open>strings.Replace(s, old, new, 1)\<close> for a non-empty \<open>old\<close>: the first occurrence.\<close>

fun ReplaceFirst :: "string \<Rightarrow> string \<Rightarrow> string \<Rightarrow> string" where
  "ReplaceFirst [] old new = []"
| "ReplaceFirst (c # cs) old new =
     (if HasPrefix (c # cs) old then new @ drop (length old) (c # cs)
      else c # ReplaceFirst cs old new)"

text \<open>The verb \<^verbatim>\<open>%d\<close> of \<^verbatim>\<open>fmt.Sprintf\<close> on a slice index: decimal, no leading zero.\<close>

definition digit :: "nat \<Rightarrow> char" where
  "digit d = char_of (48 + d)"

fun fmt_d :: "nat \<Rightarrow> string" where
  "fmt_d n = (if n < 10 then [digit n] else fmt_d (n div 10) @ [digit (n mod 10)])"

declare fmt_d.simps [simp del]

section \<open>The pod inspectors\<close>

definition getLabelOrDefault :: "Pod \<Rightarrow> string \<Rightarrow> string \<Rightarrow> string" where
  "getLabelOrDefault pod label defaultValue =
     (case podLabels pod label of Some v \<Rightarrow> v | None \<Rightarrow> defaultValue)"

fun mountLoop :: "VolumeMount list \<Rightarrow> string \<Rightarrow> bool" where
  "mountLoop [] path = False"
| "mountLoop (m # ms) path = (if vmMountPath m = path then True else mountLoop ms path)"

definition hasMountByPath :: "Container \<Rightarrow> string \<Rightarrow> bool" where
  "hasMountByPath container path = mountLoop (cVolumeMounts container) path"

fun volumeLoop :: "PodVolume list \<Rightarrow> string \<Rightarrow> bool" where
  "volumeLoop [] name = False"
| "volumeLoop (v # vs) name = (if pvName v = name then True else volumeLoop vs name)"

definition hasVolumeByName :: "Pod \<Rightarrow> string \<Rightarrow> bool" where
  "hasVolumeByName pod name = volumeLoop (podVolumes pod) name"

fun envLoop :: "EnvVar list \<Rightarrow> string \<Rightarrow> bool" where
  "envLoop [] envVar = False"
| "envLoop (e # es) envVar = (if evName e = envVar then True else envLoop es envVar)"

text \<open>Ranging over a nil slice runs no iteration.\<close>

definition envList :: "Container \<Rightarrow> EnvVar list" where
  "envList container = (case cEnv container of None \<Rightarrow> [] | Some es \<Rightarrow> es)"

definition hasEnvVarSet :: "Container \<Rightarrow> string \<Rightarrow> bool" where
  "hasEnvVarSet container envVar = envLoop (envList container) envVar"

section \<open>HandleAdmission\<close>

subsection \<open>The hostPath check (lines 138 to 159)\<close>

text \<open>
  The first volume, with its index, that has a hostPath source other than the
  permitted pair; \<open>None\<close> when the loop runs to its end.
\<close>

fun hostPathLoop :: "nat \<Rightarrow> PodVolume list \<Rightarrow> (nat \<times> PodVolume \<times> HostPathVolumeSource) option" where
  "hostPathLoop idx [] = None"
| "hostPathLoop idx (volume # rest) =
     (case pvHostPath volume of
        None \<Rightarrow> hostPathLoop (Suc idx) rest
      | Some hp \<Rightarrow>
          if pvName volume \<noteq> ''home'' \<or> hpPath hp \<noteq> ''/data/project''
          then Some (idx, volume, hp)
          else hostPathLoop (Suc idx) rest)"

subsection \<open>The patches of the full path (lines 160 to 167 and 195 to 317)\<close>

definition volumesInit :: "Pod \<Rightarrow> PatchOperation list" where
  "volumesInit pod =
     (if length (podVolumes pod) \<noteq> 0 then []
      else [\<lparr>Op = ''add'', Path = ''/spec/volumes'', Value = EmptyStringArray\<rparr>])"

definition containerPath :: "nat \<Rightarrow> string \<Rightarrow> string" where
  "containerPath i field = ''/spec/containers/'' @ fmt_d i @ field"

fun mountInitLoop :: "nat \<Rightarrow> Container list \<Rightarrow> PatchOperation list" where
  "mountInitLoop i [] = []"
| "mountInitLoop i (container # rest) =
     (if length (cVolumeMounts container) = 0
      then [\<lparr>Op = ''add'', Path = containerPath i ''/volumeMounts'', Value = EmptyStringArray\<rparr>]
      else [])
     @ mountInitLoop (Suc i) rest"

definition volumeAdd :: "Volume \<Rightarrow> PatchOperation" where
  "volumeAdd volume =
     \<lparr>Op = ''add'', Path = ''/spec/volumes/-'',
      Value = VolumeValue
        \<lparr>pvName = volName volume,
         pvHostPath = Some \<lparr>hpPath = volPath volume, hpType = Some (volType volume)\<rparr>\<rparr>\<rparr>"

definition mountAdd :: "nat \<Rightarrow> Volume \<Rightarrow> PatchOperation" where
  "mountAdd i volume =
     \<lparr>Op = ''add'', Path = containerPath i ''/volumeMounts/-'',
      Value = VolumeMountValue
        \<lparr>vmMountPath = volPath volume, vmName = volName volume,
         vmReadOnly = volReadOnly volume\<rparr>\<rparr>"

fun mountAddLoop :: "Volume \<Rightarrow> nat \<Rightarrow> Container list \<Rightarrow> PatchOperation list" where
  "mountAddLoop volume i [] = []"
| "mountAddLoop volume i (container # rest) =
     (if hasMountByPath container (volPath volume) then [] else [mountAdd i volume])
     @ mountAddLoop volume (Suc i) rest"

fun volumesLoop :: "Pod \<Rightarrow> Volume list \<Rightarrow> PatchOperation list" where
  "volumesLoop pod [] = []"
| "volumesLoop pod (volume # rest) =
     (if hasVolumeByName pod (volName volume) then []
      else volumeAdd volume # mountAddLoop volume 0 (podContainers pod))
     @ volumesLoop pod rest"

definition toolHome :: "string \<Rightarrow> string" where
  "toolHome namespace = ''/data/project/'' @ ReplaceFirst namespace ''tool-'' ''''"

definition envAdd :: "nat \<Rightarrow> string \<Rightarrow> string \<Rightarrow> PatchOperation" where
  "envAdd i name v =
     \<lparr>Op = ''add'', Path = containerPath i ''/env/-'',
      Value = EnvVarValue \<lparr>evName = name, evValue = v\<rparr>\<rparr>"

text \<open>
  One iteration of the loop of lines 248 to 296, in the order of its appends: the env
  initialisation, the removal of the working directory (inside the \<^verbatim>\<open>NO_HOME\<close> branch),
  \<^verbatim>\<open>HOME\<close> unless \<^verbatim>\<open>skipSettingHome\<close> was set by either test, and \<^verbatim>\<open>TOOL_DATA_DIR\<close>.
\<close>

definition envPatches :: "string \<Rightarrow> nat \<Rightarrow> Container \<Rightarrow> PatchOperation list" where
  "envPatches namespace i container =
     (if cEnv container = None
      then [\<lparr>Op = ''add'', Path = containerPath i ''/env'', Value = EmptyEnvArray\<rparr>]
      else [])
     @ (if hasEnvVarSet container ''NO_HOME'' \<and> cWorkingDir container \<noteq> ''''
        then [\<lparr>Op = ''remove'', Path = containerPath i ''/workingDir'', Value = NoValue\<rparr>]
        else [])
     @ (if \<not> (hasEnvVarSet container ''HOME'' \<or> hasEnvVarSet container ''NO_HOME'')
        then [envAdd i ''HOME'' (toolHome namespace)]
        else [])
     @ [envAdd i ''TOOL_DATA_DIR'' (toolHome namespace)]"

fun envInitLoop :: "string \<Rightarrow> nat \<Rightarrow> Container list \<Rightarrow> PatchOperation list" where
  "envInitLoop namespace i [] = []"
| "envInitLoop namespace i (container # rest) =
     envPatches namespace i container @ envInitLoop namespace (Suc i) rest"

definition nfsLabel :: string where
  "nfsLabel = ''kubernetes.wmcloud.org/nfs-mounted''"

definition nodeSelectorPatches :: "Pod \<Rightarrow> PatchOperation list" where
  "nodeSelectorPatches pod =
     (let init = (if podNodeSelector pod = None
                  then [\<lparr>Op = ''add'', Path = ''/spec/nodeSelector'', Value = EmptyStringMap\<rparr>]
                  else []);
          nodeSelector = (case podNodeSelector pod of None \<Rightarrow> Map.empty | Some m \<Rightarrow> m)
      in init
         @ (if nodeSelector nfsLabel = None
            then [\<lparr>Op = ''add'',
                   Path = ''/spec/nodeSelector/kubernetes.wmcloud.org~1nfs-mounted'',
                   Value = StringValue ''true''\<rparr>]
            else []))"

text \<open>The slice \<^verbatim>\<open>patches\<close> when line 319 is reached.\<close>

definition allPatches :: "VolumeAdmission \<Rightarrow> string \<Rightarrow> Pod \<Rightarrow> PatchOperation list" where
  "allPatches admission namespace pod =
     volumesInit pod
     @ mountInitLoop 0 (podContainers pod)
     @ volumesLoop pod (Volumes admission)
     @ envInitLoop namespace 0 (podContainers pod)
     @ nodeSelectorPatches pod"

subsection \<open>The responses\<close>

definition errorResponse :: "string \<Rightarrow> StatusMessage \<Rightarrow> 'bytes AdmissionResponse" where
  "errorResponse uid msg =
     \<lparr>respUID = uid, Allowed = False, Result = Some msg, Patch = None,
      RespPatchType = None\<rparr>"

definition patchResponse ::
  "string \<Rightarrow> string \<Rightarrow> 'bytes option \<Rightarrow> 'bytes AdmissionResponse" where
  "patchResponse uid msg bytes =
     \<lparr>respUID = uid, Allowed = True, Result = Some (Message msg), Patch = bytes,
      RespPatchType = Some PatchTypeJSONPatch\<rparr>"

subsection \<open>The handler\<close>

text \<open>
  \<open>unmarshal\<close> is \<^verbatim>\<open>json.Unmarshal\<close> into a Pod and \<open>marshal\<close> is \<^verbatim>\<open>json.Marshal\<close> of the
  patch slice; \<open>Inl\<close> carries \<^verbatim>\<open>err.Error()\<close>. On the mount-mode none path the error
  branch of line 181 builds an error response and does not return: line 191 then
  stores \<^verbatim>\<open>response\<close>, whose \<^verbatim>\<open>Patch\<close> is the nil slice that \<^verbatim>\<open>json.Marshal\<close> returned
  with the error.
\<close>

definition HandleAdmission ::
  "('raw \<Rightarrow> string + Pod) \<Rightarrow> (PatchOperation list \<Rightarrow> string + 'bytes) \<Rightarrow>
   VolumeAdmission \<Rightarrow> 'raw AdmissionRequest \<Rightarrow> 'bytes AdmissionResponse" where
  "HandleAdmission unmarshal marshal admission req =
     (case unmarshal (reqObject req) of
        Inl err \<Rightarrow> errorResponse (reqUID req) (Message err)
      | Inr pod \<Rightarrow>
          let mountConfig = getLabelOrDefault pod MountConfigLabel MountAll in
          if mountConfig \<noteq> MountAll \<and> mountConfig \<noteq> MountNone
          then errorResponse (reqUID req)
                 (Message (''Invalid value for '' @ MountConfigLabel @ '' label''))
          else if \<not> HasPrefix (reqNamespace req) ''tool-''
          then errorResponse (reqUID req)
                 (Message ''Only tools can have tool volumes mounted to them'')
          else
            (case hostPathLoop 0 (podVolumes pod) of
               Some (idx, volume, hp) \<Rightarrow>
                 errorResponse (reqUID req) (HostPathMessage idx (pvName volume) hp)
             | None \<Rightarrow>
                 if mountConfig = MountNone
                 then
                   (case marshal (volumesInit pod) of
                      Inl err \<Rightarrow> patchResponse (reqUID req) ''No volumes requested'' None
                    | Inr bytes \<Rightarrow>
                        patchResponse (reqUID req) ''No volumes requested'' (Some bytes))
                 else
                   (case marshal (allPatches admission (reqNamespace req) pod) of
                      Inl err \<Rightarrow> errorResponse (reqUID req) (Message err)
                    | Inr bytes \<Rightarrow>
                        patchResponse (reqUID req) ''Volumes mounted'' (Some bytes))))"

section \<open>Notions the properties are stated with\<close>

text \<open>The byte slice \<^verbatim>\<open>json.Marshal\<close> hands back: nil when it returns an error.\<close>

definition marshalled :: "string + 'bytes \<Rightarrow> 'bytes option" where
  "marshalled r = (case r of Inl err \<Rightarrow> None | Inr bytes \<Rightarrow> Some bytes)"

text \<open>The name of the environment variable a patch value carries, if it is one.\<close>

definition envVarName :: "PatchValue \<Rightarrow> string option" where
  "envVarName v = (case v of EnvVarValue e \<Rightarrow> Some (evName e) | _ \<Rightarrow> None)"

text \<open>
  The slice handed to \<^verbatim>\<open>json.Marshal\<close> by a request that passes validation: line 180 on
  the mount-mode none path, line 331 on the full path.
\<close>

definition emittedPatches :: "VolumeAdmission \<Rightarrow> string \<Rightarrow> Pod \<Rightarrow> PatchOperation list" where
  "emittedPatches admission namespace pod =
     (if getLabelOrDefault pod MountConfigLabel MountAll = MountNone then volumesInit pod
      else allPatches admission namespace pod)"

text \<open>An operation that creates the array at \<open>parent\<close>, empty.\<close>

definition createsArray :: "string \<Rightarrow> PatchOperation \<Rightarrow> bool" where
  "createsArray parent op =
     (Op op = ''add'' \<and> Path op = parent \<and>
      (Value op = EmptyStringArray \<or> Value op = EmptyEnvArray))"

text \<open>
  The array at \<open>parent\<close> is on the decoded Pod: a non-empty slice of volumes or of volume
  mounts, or a non-nil env slice. (An empty array of volumes or mounts in the JSON is
  not told from an absent one by the decoded Pod, nor by the code.)
\<close>

definition arrayOnPod :: "Pod \<Rightarrow> string \<Rightarrow> bool" where
  "arrayOnPod pod parent =
     ((parent = ''/spec/volumes'' \<and> podVolumes pod \<noteq> []) \<or>
      list_ex (\<lambda>i. (parent = containerPath i ''/volumeMounts'' \<and>
                      cVolumeMounts (podContainers pod ! i) \<noteq> []) \<or>
                    (parent = containerPath i ''/env'' \<and>
                      cEnv (podContainers pod ! i) \<noteq> None))
        [0 ..< length (podContainers pod)])"

subsection \<open>The Pod as a JSON document, and applying a patch to it\<close>

text \<open>
  The patch is applied by the API server to the JSON object of the request, where a
  member can be absent; the decoded Pod does not tell an absent array from an empty one.
  The document keeps, for the members the patch addresses, whether they are there:
  \<open>None\<close> is an absent (or null) member. \<open>decodeDoc\<close> is what \<^verbatim>\<open>json.Unmarshal\<close> makes of
  such a document: an absent slice or string is the zero value, an absent or null
  \<^verbatim>\<open>env\<close> and \<^verbatim>\<open>nodeSelector\<close> are nil, and an object without \<^verbatim>\<open>spec\<close> has no volume and no
  container.
\<close>

record ContainerDoc =
  cdName :: string
  cdWorkingDir :: "string option"
  cdEnv :: "EnvVar list option"
  cdVolumeMounts :: "VolumeMount list option"

record SpecDoc =
  sdVolumes :: "PodVolume list option"
  sdContainers :: "ContainerDoc list"
  sdNodeSelector :: "(string \<rightharpoonup> string) option"




text \<open>
  RFC 6902 on the document, for the operations and paths the webhook emits. An \<^verbatim>\<open>add\<close>
  of an object member sets it and needs the object that holds it; an \<^verbatim>\<open>add\<close> at a path
  ending in \<^verbatim>\<open>/-\<close> appends and needs the array; the \<^verbatim>\<open>add\<close> of the node selector key needs
  the node selector; a \<^verbatim>\<open>remove\<close> needs its target. Every other operation fails. The path
  segment \<^verbatim>\<open>kubernetes.wmcloud.org~1nfs-mounted\<close> is the escaped key
  \<^verbatim>\<open>kubernetes.wmcloud.org/nfs-mounted\<close>.
\<close>

definition applyContainerOp ::
  "string \<Rightarrow> string \<Rightarrow> PatchValue \<Rightarrow> ContainerDoc \<Rightarrow> ContainerDoc option" where
  "applyContainerOp opName field v cd =
     (if opName = ''add'' \<and> field = ''/volumeMounts'' \<and> v = EmptyStringArray
      then Some (cd\<lparr>cdVolumeMounts := Some []\<rparr>)
      else if opName = ''add'' \<and> field = ''/volumeMounts/-''
      then (case (v, cdVolumeMounts cd) of
              (VolumeMountValue m, Some ms) \<Rightarrow> Some (cd\<lparr>cdVolumeMounts := Some (ms @ [m])\<rparr>)
            | _ \<Rightarrow> None)
      else if opName = ''add'' \<and> field = ''/env'' \<and> v = EmptyEnvArray
      then Some (cd\<lparr>cdEnv := Some []\<rparr>)
      else if opName = ''add'' \<and> field = ''/env/-''
      then (case (v, cdEnv cd) of
              (EnvVarValue e, Some es) \<Rightarrow> Some (cd\<lparr>cdEnv := Some (es @ [e])\<rparr>)
            | _ \<Rightarrow> None)
      else if opName = ''remove'' \<and> field = ''/workingDir'' \<and> cdWorkingDir cd \<noteq> None
      then Some (cd\<lparr>cdWorkingDir := None\<rparr>)
      else None)"

text \<open>One operation on the \<^verbatim>\<open>spec\<close> object of the document.\<close>

definition applyOp :: "PatchOperation \<Rightarrow> SpecDoc \<Rightarrow> SpecDoc option" where
  "applyOp op spec =
     (if Op op = ''add'' \<and> Path op = ''/spec/volumes'' \<and> Value op = EmptyStringArray
      then Some (spec\<lparr>sdVolumes := Some []\<rparr>)
      else if Op op = ''add'' \<and> Path op = ''/spec/volumes/-''
      then (case (Value op, sdVolumes spec) of
              (VolumeValue v, Some vs) \<Rightarrow> Some (spec\<lparr>sdVolumes := Some (vs @ [v])\<rparr>)
            | _ \<Rightarrow> None)
      else if Op op = ''add'' \<and> Path op = ''/spec/nodeSelector'' \<and> Value op = EmptyStringMap
      then Some (spec\<lparr>sdNodeSelector := Some Map.empty\<rparr>)
      else if Op op = ''add''
           \<and> Path op = ''/spec/nodeSelector/kubernetes.wmcloud.org~1nfs-mounted''
      then (case (Value op, sdNodeSelector spec) of
              (StringValue s, Some selector) \<Rightarrow>
                Some (spec\<lparr>sdNodeSelector := Some (selector(nfsLabel \<mapsto> s))\<rparr>)
            | _ \<Rightarrow> None)
      else
        (case find (\<lambda>i. HasPrefix (Path op) (containerPath i ''/''))
                [0 ..< length (sdContainers spec)] of
           None \<Rightarrow> None
         | Some i \<Rightarrow>
             (case applyContainerOp (Op op) (drop (length (containerPath i [])) (Path op))
                     (Value op) (sdContainers spec ! i) of
                None \<Rightarrow> None
              | Some cd \<Rightarrow> Some (spec\<lparr>sdContainers := (sdContainers spec)[i := cd]\<rparr>))))"

fun applyOps :: "PatchOperation list \<Rightarrow> SpecDoc \<Rightarrow> SpecDoc option" where
  "applyOps [] spec = Some spec"
| "applyOps (op # ops) spec =
     (case applyOp op spec of None \<Rightarrow> None | Some spec' \<Rightarrow> applyOps ops spec')"


subsection \<open>The patched Pod in closed form\<close>









subsection \<open>The reference requests of the test suite\<close>

text \<open>The volume policy of \<^verbatim>\<open>server_test.go\<close>; the host path type is left unset there.\<close>

definition testVolumes :: "Volume list" where
  "testVolumes =
     [\<lparr>volName = ''home'', volPath = ''/data/project'', volType = [], volReadOnly = False\<rparr>,
      \<lparr>volName = ''etc-ldap'', volPath = ''/etc/ldap'', volType = [], volReadOnly = True\<rparr>]"

definition testAdmission :: VolumeAdmission where
  "testAdmission = \<lparr>Volumes = testVolumes\<rparr>"

definition testRequest :: "string \<Rightarrow> 'raw \<Rightarrow> 'raw AdmissionRequest" where
  "testRequest namespace raw =
     \<lparr>reqUID = ''e911857d-c318-11e8-bbad-025000000001'', reqNamespace = namespace,
      reqObject = raw\<rparr>"

text \<open>The Pod of \<^verbatim>\<open>TestServerMountsAllVolumesWhenNoneExist\<close>.\<close>

definition barePod :: Pod where
  "barePod =
     \<lparr>podLabels = Map.empty, podVolumes = [],
      podContainers =
        [\<lparr>cName = ''test'', cWorkingDir = [], cEnv = None, cVolumeMounts = []\<rparr>],
      podNodeSelector = Some [''foo'' \<mapsto> ''bar'']\<rparr>"

text \<open>The Pod \<^verbatim>\<open>getDummyRequest\<close> builds when no parameter is given.\<close>

definition dummyPod :: Pod where
  "dummyPod =
     \<lparr>podLabels = Map.empty,
      podVolumes =
        [\<lparr>pvName = ''home'',
          pvHostPath = Some \<lparr>hpPath = ''/data/project'', hpType = Some ''Directory''\<rparr>\<rparr>],
      podContainers =
        [\<lparr>cName = ''maintain-kubeusers'', cWorkingDir = ''/some/path'',
          cEnv = Some [\<lparr>evName = ''NO_HOME'', evValue = ''original value''\<rparr>],
          cVolumeMounts =
            [\<lparr>vmMountPath = ''/data/project'', vmName = ''home'', vmReadOnly = False\<rparr>]\<rparr>],
      podNodeSelector = None\<rparr>"





section \<open>Paths\<close>

text \<open>Decimal rendering is injective and free of slashes, so a container path
  determines its index and its field.\<close>

lemma of_char_digit: "d < 10 \<Longrightarrow> of_char (digit d) = 48 + d"
  by (simp add: digit_def)

lemma digit_inj: "a < 10 \<Longrightarrow> b < 10 \<Longrightarrow> digit a = digit b \<Longrightarrow> a = b"
proof -
  assume a: "a < 10" and b: "b < 10" and e: "digit a = digit b"
  have "(of_char (digit a) :: nat) = of_char (digit b)"
    by (rule arg_cong [OF e])
  then show "a = b"
    by (simp only: of_char_digit [OF a] of_char_digit [OF b] add_left_cancel)
qed

lemma digit_not_slash: "d < 10 \<Longrightarrow> digit d \<noteq> CHR ''/''"
proof
  assume "d < 10" and "digit d = CHR ''/''"
  then have "(of_char (CHR ''/'') :: nat) = 48 + d"
    using of_char_digit [of d] by simp
  then show False by simp
qed

lemma fmt_d_not_Nil [simp]: "fmt_d n \<noteq> []" "[] \<noteq> fmt_d n"
  by (subst fmt_d.simps, simp)+

lemma slash_not_digit: "d < 10 \<Longrightarrow> CHR ''/'' \<noteq> digit d"
  using digit_not_slash [of d] by auto

lemma slash_notin_fmt_d: "CHR ''/'' \<notin> set (fmt_d n)"
proof (induction n rule: fmt_d.induct)
  case (1 n)
  show ?case
  proof (cases "n < 10")
    case True
    then show ?thesis by (subst fmt_d.simps) (simp add: slash_not_digit)
  next
    case False
    then show ?thesis
      using 1 by (subst fmt_d.simps) (simp add: slash_not_digit)
  qed
qed

lemma fmt_d_inj: "fmt_d n = fmt_d m \<Longrightarrow> n = m"
proof (induction n arbitrary: m rule: fmt_d.induct)
  case (1 n)
  show ?case
  proof (cases "n < 10")
    case n: True
    show ?thesis
    proof (cases "m < 10")
      case True
      with n 1(2) show ?thesis
        by (simp add: fmt_d.simps [of n] fmt_d.simps [of m] digit_inj)
    next
      case False
      with n 1(2) show ?thesis
        by (simp add: fmt_d.simps [of n] fmt_d.simps [of m])
    qed
  next
    case n: False
    show ?thesis
    proof (cases "m < 10")
      case True
      with n 1(2) show ?thesis
        by (simp add: fmt_d.simps [of n] fmt_d.simps [of m])
    next
      case False
      with n 1(2) have e: "fmt_d (n div 10) = fmt_d (m div 10)" "digit (n mod 10) = digit (m mod 10)"
        by (simp_all add: fmt_d.simps [of n] fmt_d.simps [of m])
      from 1(1) [OF n e(1)] have "n div 10 = m div 10" .
      moreover from e(2) have "n mod 10 = m mod 10" by (simp add: digit_inj)
      ultimately show ?thesis by (metis div_mult_mod_eq)
    qed
  qed
qed

lemma split_at_slash:
  "CHR ''/'' \<notin> set a \<Longrightarrow> CHR ''/'' \<notin> set b \<Longrightarrow>
   a @ CHR ''/'' # x = b @ CHR ''/'' # y \<Longrightarrow> a = b \<and> x = y"
proof (induction a arbitrary: b)
  case Nil
  then show ?case by (cases b) auto
next
  case (Cons c a)
  then show ?case by (cases b) auto
qed

lemma containerPath_eq:
  "(containerPath i (CHR ''/'' # f) = containerPath j (CHR ''/'' # g)) = (i = j \<and> f = g)"
  using split_at_slash [OF slash_notin_fmt_d slash_notin_fmt_d, of i f j g]
  by (auto simp: containerPath_def dest: fmt_d_inj)

lemma containerPath_neq_volumes [simp]:
  "containerPath i f \<noteq> ''/spec/volumes''"
  "containerPath i f \<noteq> ''/spec/volumes/-''"
  "containerPath i f \<noteq> ''/spec/nodeSelector''"
  "containerPath i f \<noteq> ''/spec/nodeSelector/kubernetes.wmcloud.org~1nfs-mounted''"
  by (simp_all add: containerPath_def)

section \<open>The reference scenario\<close>

lemma fmt_d_0: "fmt_d 0 = ''0''" by code_simp

lemma toolHome_test: "toolHome ''tool-test'' = ''/data/project/test''"
  by (simp add: toolHome_def HasPrefix_def)

text \<open>
  C9, as amended. In namespace \<^verbatim>\<open>tool-test\<close> and under the reference policy, a Pod with
  no volume, no mount-mode label and one container without env and volume mounts is
  allowed when the encoder succeeds; its patch starts with nine operations (the two
  array initialisations, the two pairs of volume and mount, the env initialisation,
  \<^verbatim>\<open>HOME\<close> and \<^verbatim>\<open>TOOL_DATA_DIR\<close>), followed by the node selector operations: the
  initialisation and the label when the Pod has no node selector (eleven operations),
  the label alone when it has one without the key (ten), none when the key is there.
\<close>

theorem bare_pod_operations:
  assumes "unmarshal (reqObject req) = Inr pod"
    and "reqNamespace req = ''tool-test''"
    and "Volumes admission = testVolumes"
    and "podLabels pod MountConfigLabel = None"
    and "podVolumes pod = []"
    and "podContainers pod = [container]"
    and "cEnv container = None"
    and "cVolumeMounts container = []"
    and "marshal (allPatches admission (reqNamespace req) pod) = Inr bytes"
  shows "Allowed (HandleAdmission unmarshal marshal admission req)
       \<and> Patch (HandleAdmission unmarshal marshal admission req) = Some bytes
       \<and> allPatches admission (reqNamespace req) pod =
          [\<lparr>Op = ''add'', Path = ''/spec/volumes'', Value = EmptyStringArray\<rparr>,
           \<lparr>Op = ''add'', Path = ''/spec/containers/0/volumeMounts'', Value = EmptyStringArray\<rparr>,
           \<lparr>Op = ''add'', Path = ''/spec/volumes/-'',
            Value = VolumeValue \<lparr>pvName = ''home'',
              pvHostPath = Some \<lparr>hpPath = ''/data/project'', hpType = Some []\<rparr>\<rparr>\<rparr>,
           \<lparr>Op = ''add'', Path = ''/spec/containers/0/volumeMounts/-'',
            Value = VolumeMountValue
              \<lparr>vmMountPath = ''/data/project'', vmName = ''home'', vmReadOnly = False\<rparr>\<rparr>,
           \<lparr>Op = ''add'', Path = ''/spec/volumes/-'',
            Value = VolumeValue \<lparr>pvName = ''etc-ldap'',
              pvHostPath = Some \<lparr>hpPath = ''/etc/ldap'', hpType = Some []\<rparr>\<rparr>\<rparr>,
           \<lparr>Op = ''add'', Path = ''/spec/containers/0/volumeMounts/-'',
            Value = VolumeMountValue
              \<lparr>vmMountPath = ''/etc/ldap'', vmName = ''etc-ldap'', vmReadOnly = True\<rparr>\<rparr>,
           \<lparr>Op = ''add'', Path = ''/spec/containers/0/env'', Value = EmptyEnvArray\<rparr>,
           \<lparr>Op = ''add'', Path = ''/spec/containers/0/env/-'',
            Value = EnvVarValue \<lparr>evName = ''HOME'', evValue = ''/data/project/test''\<rparr>\<rparr>,
           \<lparr>Op = ''add'', Path = ''/spec/containers/0/env/-'',
            Value = EnvVarValue
              \<lparr>evName = ''TOOL_DATA_DIR'', evValue = ''/data/project/test''\<rparr>\<rparr>]
          @ (case podNodeSelector pod of
               None \<Rightarrow>
                 [\<lparr>Op = ''add'', Path = ''/spec/nodeSelector'', Value = EmptyStringMap\<rparr>,
                  \<lparr>Op = ''add'',
                   Path = ''/spec/nodeSelector/kubernetes.wmcloud.org~1nfs-mounted'',
                   Value = StringValue ''true''\<rparr>]
             | Some selector \<Rightarrow>
                 if selector ''kubernetes.wmcloud.org/nfs-mounted'' = None
                 then [\<lparr>Op = ''add'',
                        Path = ''/spec/nodeSelector/kubernetes.wmcloud.org~1nfs-mounted'',
                        Value = StringValue ''true''\<rparr>]
                 else [])"
proof -
  have ps: "allPatches admission (reqNamespace req) pod =
          [\<lparr>Op = ''add'', Path = ''/spec/volumes'', Value = EmptyStringArray\<rparr>,
           \<lparr>Op = ''add'', Path = ''/spec/containers/0/volumeMounts'', Value = EmptyStringArray\<rparr>,
           \<lparr>Op = ''add'', Path = ''/spec/volumes/-'',
            Value = VolumeValue \<lparr>pvName = ''home'',
              pvHostPath = Some \<lparr>hpPath = ''/data/project'', hpType = Some []\<rparr>\<rparr>\<rparr>,
           \<lparr>Op = ''add'', Path = ''/spec/containers/0/volumeMounts/-'',
            Value = VolumeMountValue
              \<lparr>vmMountPath = ''/data/project'', vmName = ''home'', vmReadOnly = False\<rparr>\<rparr>,
           \<lparr>Op = ''add'', Path = ''/spec/volumes/-'',
            Value = VolumeValue \<lparr>pvName = ''etc-ldap'',
              pvHostPath = Some \<lparr>hpPath = ''/etc/ldap'', hpType = Some []\<rparr>\<rparr>\<rparr>,
           \<lparr>Op = ''add'', Path = ''/spec/containers/0/volumeMounts/-'',
            Value = VolumeMountValue
              \<lparr>vmMountPath = ''/etc/ldap'', vmName = ''etc-ldap'', vmReadOnly = True\<rparr>\<rparr>,
           \<lparr>Op = ''add'', Path = ''/spec/containers/0/env'', Value = EmptyEnvArray\<rparr>,
           \<lparr>Op = ''add'', Path = ''/spec/containers/0/env/-'',
            Value = EnvVarValue \<lparr>evName = ''HOME'', evValue = ''/data/project/test''\<rparr>\<rparr>,
           \<lparr>Op = ''add'', Path = ''/spec/containers/0/env/-'',
            Value = EnvVarValue
              \<lparr>evName = ''TOOL_DATA_DIR'', evValue = ''/data/project/test''\<rparr>\<rparr>]
          @ nodeSelectorPatches pod"
    using assms(2-8)
    by (simp add: allPatches_def volumesInit_def testVolumes_def hasVolumeByName_def
        hasMountByPath_def volumeAdd_def mountAdd_def envPatches_def hasEnvVarSet_def
        envList_def envAdd_def containerPath_def fmt_d_0 toolHome_test)
  have ns: "nodeSelectorPatches pod =
      (case podNodeSelector pod of
               None \<Rightarrow>
                 [\<lparr>Op = ''add'', Path = ''/spec/nodeSelector'', Value = EmptyStringMap\<rparr>,
                  \<lparr>Op = ''add'',
                   Path = ''/spec/nodeSelector/kubernetes.wmcloud.org~1nfs-mounted'',
                   Value = StringValue ''true''\<rparr>]
             | Some selector \<Rightarrow>
                 if selector ''kubernetes.wmcloud.org/nfs-mounted'' = None
                 then [\<lparr>Op = ''add'',
                        Path = ''/spec/nodeSelector/kubernetes.wmcloud.org~1nfs-mounted'',
                        Value = StringValue ''true''\<rparr>]
                 else [])"
    by (simp add: nodeSelectorPatches_def nfsLabel_def Let_def split: option.splits)
  have lab: "getLabelOrDefault pod MountConfigLabel MountAll = MountAll"
    using assms(4) by (simp add: getLabelOrDefault_def)
  have hp: "hostPathLoop 0 (podVolumes pod) = None"
    using assms(5) by simp
  have "Allowed (HandleAdmission unmarshal marshal admission req)
       \<and> Patch (HandleAdmission unmarshal marshal admission req) = Some bytes"
    using assms(1,2,9) lab hp
    by (simp add: HandleAdmission_def Let_def patchResponse_def HasPrefix_def
        MountAll_def MountNone_def)
  then show ?thesis
    unfolding ps ns by simp
qed

theorem bare_pod_operations_witness:
  "Allowed (HandleAdmission Inr Inr testAdmission (testRequest ''tool-test'' barePod))
   \<and> length (the (Patch (HandleAdmission Inr Inr testAdmission
         (testRequest ''tool-test'' barePod)))) = 10
   \<and> allPatches testAdmission ''tool-test'' barePod =
          [\<lparr>Op = ''add'', Path = ''/spec/volumes'', Value = EmptyStringArray\<rparr>,
           \<lparr>Op = ''add'', Path = ''/spec/containers/0/volumeMounts'', Value = EmptyStringArray\<rparr>,
           \<lparr>Op = ''add'', Path = ''/spec/volumes/-'',
            Value = VolumeValue \<lparr>pvName = ''home'',
              pvHostPath = Some \<lparr>hpPath = ''/data/project'', hpType = Some []\<rparr>\<rparr>\<rparr>,
           \<lparr>Op = ''add'', Path = ''/spec/containers/0/volumeMounts/-'',
            Value = VolumeMountValue
              \<lparr>vmMountPath = ''/data/project'', vmName = ''home'', vmReadOnly = False\<rparr>\<rparr>,
           \<lparr>Op = ''add'', Path = ''/spec/volumes/-'',
            Value = VolumeValue \<lparr>pvName = ''etc-ldap'',
              pvHostPath = Some \<lparr>hpPath = ''/etc/ldap'', hpType = Some []\<rparr>\<rparr>\<rparr>,
           \<lparr>Op = ''add'', Path = ''/spec/containers/0/volumeMounts/-'',
            Value = VolumeMountValue
              \<lparr>vmMountPath = ''/etc/ldap'', vmName = ''etc-ldap'', vmReadOnly = True\<rparr>\<rparr>,
           \<lparr>Op = ''add'', Path = ''/spec/containers/0/env'', Value = EmptyEnvArray\<rparr>,
           \<lparr>Op = ''add'', Path = ''/spec/containers/0/env/-'',
            Value = EnvVarValue \<lparr>evName = ''HOME'', evValue = ''/data/project/test''\<rparr>\<rparr>,
           \<lparr>Op = ''add'', Path = ''/spec/containers/0/env/-'',
            Value = EnvVarValue
              \<lparr>evName = ''TOOL_DATA_DIR'', evValue = ''/data/project/test''\<rparr>\<rparr>,
           \<lparr>Op = ''add'',
            Path = ''/spec/nodeSelector/kubernetes.wmcloud.org~1nfs-mounted'',
            Value = StringValue ''true''\<rparr>]"
  using bare_pod_operations
    [where unmarshal = Inr and marshal = Inr and admission = testAdmission
       and req = "testRequest ''tool-test'' barePod" and pod = barePod
       and container = "\<lparr>cName = ''test'', cWorkingDir = [], cEnv = None, cVolumeMounts = []\<rparr>"
       and bytes = "allPatches testAdmission ''tool-test'' barePod"]
  by (simp add: testRequest_def barePod_def testAdmission_def MountConfigLabel_def)

text \<open>
  The eleven operations listed for the scenario do not make a patch of ten: without a
  node selector the Pod of the reference test gets eleven operations, and with its node
  selector it gets ten, the initialisation of the node selector not among them.
\<close>

theorem bare_pod_ten_operations_counterexample:
  "Allowed (HandleAdmission Inr Inr testAdmission
       (testRequest ''tool-test'' (barePod\<lparr>podNodeSelector := None\<rparr>)))
   \<and> length (the (Patch (HandleAdmission Inr Inr testAdmission
         (testRequest ''tool-test'' (barePod\<lparr>podNodeSelector := None\<rparr>))))) = 11
   \<and> length (the (Patch (HandleAdmission Inr Inr testAdmission
         (testRequest ''tool-test'' barePod)))) = 10
   \<and> \<lparr>Op = ''add'', Path = ''/spec/nodeSelector'', Value = EmptyStringMap\<rparr>
       \<notin> set (the (Patch (HandleAdmission Inr Inr testAdmission
         (testRequest ''tool-test'' barePod))))"
  by (simp add: HandleAdmission_def Let_def testRequest_def barePod_def testAdmission_def
      getLabelOrDefault_def MountAll_def MountNone_def HasPrefix_def patchResponse_def
      allPatches_def volumesInit_def testVolumes_def hasVolumeByName_def
      hasMountByPath_def volumeAdd_def mountAdd_def envPatches_def hasEnvVarSet_def
      envList_def envAdd_def containerPath_def fmt_d_0 nodeSelectorPatches_def nfsLabel_def)

section \<open>Validation\<close>

lemma hostPathLoop_None_iff:
  "(hostPathLoop idx vs = None) =
   (\<forall>v \<in> set vs. \<forall>hp. pvHostPath v = Some hp \<longrightarrow>
      pvName v = ''home'' \<and> hpPath hp = ''/data/project'')"
  by (induction vs arbitrary: idx) (auto split: option.splits)

text \<open>
  C3. A request whose namespace does not start with \<^verbatim>\<open>tool-\<close> is denied and carries no
  patch, whatever the decoded Pod holds.
\<close>

theorem non_tool_namespace_denied:
  assumes "unmarshal (reqObject req) = Inr pod"
    and "\<not> HasPrefix (reqNamespace req) ''tool-''"
  shows "\<not> Allowed (HandleAdmission unmarshal marshal admission req)
       \<and> Patch (HandleAdmission unmarshal marshal admission req) = None
       \<and> RespPatchType (HandleAdmission unmarshal marshal admission req) = None"
  using assms by (simp add: HandleAdmission_def errorResponse_def Let_def)

theorem non_tool_namespace_denied_witness:
  "\<not> HasPrefix ''maintain-kubeusers'' ''tool-''
   \<and> \<not> Allowed (HandleAdmission Inr Inr testAdmission (testRequest ''maintain-kubeusers'' dummyPod))
   \<and> Patch (HandleAdmission Inr Inr testAdmission (testRequest ''maintain-kubeusers'' dummyPod))
       = (None :: PatchOperation list option)"
  using non_tool_namespace_denied
    [where unmarshal = Inr and req = "testRequest ''maintain-kubeusers'' dummyPod"
       and pod = dummyPod and marshal = Inr and admission = testAdmission]
  by (simp add: testRequest_def HasPrefix_def)

text \<open>
  C1. A decoded Pod that declares a volume with a hostPath source whose name and path
  are not exactly \<^verbatim>\<open>home\<close> and \<^verbatim>\<open>/data/project\<close> is denied and carries no patch, whatever
  the namespace, the mount-mode label and the rest of the Pod.
\<close>

theorem foreign_hostPath_denied:
  assumes "unmarshal (reqObject req) = Inr pod"
    and "volume \<in> set (podVolumes pod)"
    and "pvHostPath volume = Some hp"
    and "(pvName volume, hpPath hp) \<noteq> (''home'', ''/data/project'')"
  shows "\<not> Allowed (HandleAdmission unmarshal marshal admission req)
       \<and> Patch (HandleAdmission unmarshal marshal admission req) = None
       \<and> RespPatchType (HandleAdmission unmarshal marshal admission req) = None"
proof -
  have "hostPathLoop 0 (podVolumes pod) \<noteq> None"
    using assms(2-4) unfolding hostPathLoop_None_iff by auto
  then obtain idx v h where "hostPathLoop 0 (podVolumes pod) = Some (idx, v, h)"
    by auto
  then show ?thesis
    using assms(1)
    by (simp add: HandleAdmission_def errorResponse_def Let_def)
qed

theorem foreign_hostPath_denied_witness:
  "\<not> Allowed (HandleAdmission Inr Inr testAdmission
       (testRequest ''tool-test''
          (dummyPod\<lparr>podVolumes :=
             [\<lparr>pvName = ''home'',
               pvHostPath = Some \<lparr>hpPath = ''/etc'', hpType = None\<rparr>\<rparr>]\<rparr>)))
   \<and> Patch (HandleAdmission Inr Inr testAdmission
       (testRequest ''tool-test''
          (dummyPod\<lparr>podVolumes :=
             [\<lparr>pvName = ''home'',
               pvHostPath = Some \<lparr>hpPath = ''/etc'', hpType = None\<rparr>\<rparr>]\<rparr>)))
       = (None :: PatchOperation list option)"
  using foreign_hostPath_denied
    [where unmarshal = Inr and marshal = Inr and admission = testAdmission
       and req = "testRequest ''tool-test''
          (dummyPod\<lparr>podVolumes :=
             [\<lparr>pvName = ''home'',
               pvHostPath = Some \<lparr>hpPath = ''/etc'', hpType = None\<rparr>\<rparr>]\<rparr>)"
       and pod = "dummyPod\<lparr>podVolumes :=
             [\<lparr>pvName = ''home'',
               pvHostPath = Some \<lparr>hpPath = ''/etc'', hpType = None\<rparr>\<rparr>]\<rparr>"
       and volume = "\<lparr>pvName = ''home'',
               pvHostPath = Some \<lparr>hpPath = ''/etc'', hpType = None\<rparr>\<rparr>"
       and hp = "\<lparr>hpPath = ''/etc'', hpType = None\<rparr>"]
  by (simp add: testRequest_def)

section \<open>The responses\<close>

text \<open>
  C10. A response that is not allowed carries no patch bytes and no patch type, and
  its UID is the UID of the request.
\<close>

theorem denial_has_no_patch:
  assumes "\<not> Allowed (HandleAdmission unmarshal marshal admission req)"
  shows "Patch (HandleAdmission unmarshal marshal admission req) = None
       \<and> RespPatchType (HandleAdmission unmarshal marshal admission req) = None
       \<and> respUID (HandleAdmission unmarshal marshal admission req) = reqUID req"
  using assms
  by (auto simp add: HandleAdmission_def errorResponse_def patchResponse_def Let_def
      split: sum.splits option.splits if_splits)

theorem denial_has_no_patch_witness:
  "\<not> Allowed (HandleAdmission (\<lambda>raw. Inl ''unexpected end of JSON input'') Inr testAdmission
       (testRequest ''tool-test'' ''{''))
   \<and> Patch (HandleAdmission (\<lambda>raw. Inl ''unexpected end of JSON input'') Inr testAdmission
       (testRequest ''tool-test'' ''{'')) = (None :: PatchOperation list option)
   \<and> RespPatchType (HandleAdmission (\<lambda>raw. Inl ''unexpected end of JSON input'')
       (Inr :: PatchOperation list \<Rightarrow> string + PatchOperation list) testAdmission
       (testRequest ''tool-test'' ''{'')) = None
   \<and> respUID (HandleAdmission (\<lambda>raw. Inl ''unexpected end of JSON input'')
       (Inr :: PatchOperation list \<Rightarrow> string + PatchOperation list) testAdmission
       (testRequest ''tool-test'' ''{'')) = ''e911857d-c318-11e8-bbad-025000000001''"
  using denial_has_no_patch
    [where unmarshal = "\<lambda>raw. Inl ''unexpected end of JSON input''"
       and marshal = "Inr :: PatchOperation list \<Rightarrow> string + PatchOperation list"
       and admission = testAdmission and req = "testRequest ''tool-test'' ''{''"]
  by (simp add: HandleAdmission_def errorResponse_def testRequest_def)

section \<open>Mount mode none\<close>

text \<open>
  C6. A request that passes validation and whose mount-mode label resolves to
  \<^verbatim>\<open>none\<close> is allowed, and the patch handed to the encoder is empty, or is the single
  operation that initialises \<^verbatim>\<open>/spec/volumes\<close> when the Pod declares no volume: it adds
  no volume, mount, environment variable or node selector.
\<close>

theorem mount_none_allowed:
  assumes "unmarshal (reqObject req) = Inr pod"
    and "getLabelOrDefault pod MountConfigLabel MountAll = MountNone"
    and "HasPrefix (reqNamespace req) ''tool-''"
    and "\<forall>v \<in> set (podVolumes pod). \<forall>hp. pvHostPath v = Some hp \<longrightarrow>
           (pvName v, hpPath hp) = (''home'', ''/data/project'')"
  shows "Allowed (HandleAdmission unmarshal marshal admission req)
       \<and> Patch (HandleAdmission unmarshal marshal admission req) =
           marshalled (marshal
             (if podVolumes pod = []
              then [\<lparr>Op = ''add'', Path = ''/spec/volumes'', Value = EmptyStringArray\<rparr>]
              else []))"
proof -
  have "hostPathLoop 0 (podVolumes pod) = None"
    using assms(4) unfolding hostPathLoop_None_iff by simp
  then show ?thesis
    using assms(1-3)
    by (simp add: HandleAdmission_def patchResponse_def Let_def MountNone_def MountAll_def
        volumesInit_def marshalled_def split: sum.splits)
qed

theorem mount_none_allowed_witness:
  "Allowed (HandleAdmission Inr Inr testAdmission
       (testRequest ''tool-test''
          (barePod\<lparr>podLabels := [MountConfigLabel \<mapsto> ''none'']\<rparr>)))
   \<and> Patch (HandleAdmission Inr Inr testAdmission
       (testRequest ''tool-test''
          (barePod\<lparr>podLabels := [MountConfigLabel \<mapsto> ''none'']\<rparr>)))
       = Some [\<lparr>Op = ''add'', Path = ''/spec/volumes'', Value = EmptyStringArray\<rparr>]"
  using mount_none_allowed
    [where unmarshal = Inr and marshal = Inr and admission = testAdmission
       and req = "testRequest ''tool-test''
          (barePod\<lparr>podLabels := [MountConfigLabel \<mapsto> ''none'']\<rparr>)"
       and pod = "barePod\<lparr>podLabels := [MountConfigLabel \<mapsto> ''none'']\<rparr>"]
  by (simp add: testRequest_def barePod_def getLabelOrDefault_def MountNone_def
      HasPrefix_def marshalled_def)

section \<open>Serialization failure\<close>





section \<open>The operations of the full path\<close>

lemma HasPrefix_iff: "HasPrefix s p = (\<exists>r. s = p @ r)"
proof
  assume "HasPrefix s p"
  then have "s = p @ drop (length p) s"
    unfolding HasPrefix_def by (metis append_take_drop_id)
  then show "\<exists>r. s = p @ r" ..
next
  assume "\<exists>r. s = p @ r"
  then show "HasPrefix s p" by (auto simp: HasPrefix_def)
qed

lemma HasPrefix_containerPath:
  "HasPrefix (containerPath j (CHR ''/'' # f)) (containerPath i (CHR ''/'' # g))
     = (i = j \<and> HasPrefix f g)"
proof -
  have "\<And>r. (containerPath j (CHR ''/'' # f) = containerPath i (CHR ''/'' # g) @ r)
          = (i = j \<and> f = g @ r)"
    using containerPath_eq [of j f i] by (auto simp add: containerPath_def)
  then show ?thesis by (simp add: HasPrefix_iff) 
qed

lemma toolHome_prefix:
  assumes "HasPrefix namespace ''tool-''"
  shows "toolHome namespace = ''/data/project/'' @ drop 5 namespace"
proof (cases namespace)
  case Nil
  with assms show ?thesis by (simp add: HasPrefix_def)
next
  case (Cons c cs)
  with assms show ?thesis by (simp add: toolHome_def eval_nat_numeral)
qed

lemma envLoop_iff: "envLoop es name = (name \<in> evName ` set es)"
  by (induction es) auto

lemma mountInitLoop_mem:
  "(op \<in> set (mountInitLoop k cs)) =
   (\<exists>j < length cs. cVolumeMounts (cs ! j) = [] \<and>
      op = \<lparr>Op = ''add'', Path = containerPath (k + j) ''/volumeMounts'',
            Value = EmptyStringArray\<rparr>)"
proof (induction cs arbitrary: k)
  case Nil
  then show ?case by simp
next
  case (Cons c cs)
  show ?case
    unfolding mountInitLoop.simps set_append Un_iff Cons.IH
    by (auto simp: less_Suc_eq_0_disj)
qed

lemma mountAddLoop_mem:
  "(op \<in> set (mountAddLoop v k cs)) =
   (\<exists>j < length cs. \<not> hasMountByPath (cs ! j) (volPath v) \<and> op = mountAdd (k + j) v)"
proof (induction cs arbitrary: k)
  case Nil
  then show ?case by simp
next
  case (Cons c cs)
  show ?case
    unfolding mountAddLoop.simps set_append Un_iff Cons.IH
    by (auto simp: less_Suc_eq_0_disj)
qed

lemma volumesLoop_mem:
  "(op \<in> set (volumesLoop pod vs)) =
   (\<exists>v \<in> set vs. \<not> hasVolumeByName pod (volName v) \<and>
      (op = volumeAdd v \<or> op \<in> set (mountAddLoop v 0 (podContainers pod))))"
  by (induction vs) auto

lemma envInitLoop_mem:
  "(op \<in> set (envInitLoop namespace k cs)) =
   (\<exists>j < length cs. op \<in> set (envPatches namespace (k + j) (cs ! j)))"
proof (induction cs arbitrary: k)
  case Nil
  then show ?case by simp
next
  case (Cons c cs)
  show ?case
    unfolding envInitLoop.simps set_append Un_iff Cons.IH
    by (auto simp: less_Suc_eq_0_disj)
qed

lemma all_path_allowed:
  assumes "unmarshal (reqObject req) = Inr pod"
    and "getLabelOrDefault pod MountConfigLabel MountAll = MountAll"
    and "Allowed (HandleAdmission unmarshal marshal admission req)"
  shows "HasPrefix (reqNamespace req) ''tool-''"
    and "hostPathLoop 0 (podVolumes pod) = None"
    and "Patch (HandleAdmission unmarshal marshal admission req) =
           marshalled (marshal (allPatches admission (reqNamespace req) pod))"
  using assms
  by (auto simp add: HandleAdmission_def errorResponse_def patchResponse_def Let_def
      MountAll_def MountNone_def marshalled_def
      split: sum.splits option.splits if_splits)

lemma literal_neq_containerPath [simp]:
  "''/spec/volumes'' \<noteq> containerPath i f"
  "''/spec/volumes/-'' \<noteq> containerPath i f"
  "''/spec/nodeSelector'' \<noteq> containerPath i f"
  "''/spec/nodeSelector/kubernetes.wmcloud.org~1nfs-mounted'' \<noteq> containerPath i f"
  by (simp_all add: containerPath_def)

lemma filter_Nil_block:
  "(\<And>op. op \<in> set xs \<Longrightarrow> \<not> P op) \<Longrightarrow> filter P xs = []"
  by (simp add: filter_empty_conv)

lemma envPatches_tool_filter:
  "filter (\<lambda>op. Path op = containerPath i ''/env/-'' \<and>
                  envVarName (Value op) = Some ''TOOL_DATA_DIR'')
     (envPatches namespace k c) =
   (if i = k then [envAdd i ''TOOL_DATA_DIR'' (toolHome namespace)] else [])"
  by (auto simp add: envPatches_def envAdd_def envVarName_def containerPath_eq)

lemma envInitLoop_tool_filter:
  "filter (\<lambda>op. Path op = containerPath i ''/env/-'' \<and>
                  envVarName (Value op) = Some ''TOOL_DATA_DIR'')
     (envInitLoop namespace k cs) =
   (if k \<le> i \<and> i < k + length cs
    then [envAdd i ''TOOL_DATA_DIR'' (toolHome namespace)] else [])"
proof (induction cs arbitrary: k)
  case Nil
  then show ?case by simp
next
  case (Cons c cs)
  show ?case
    unfolding envInitLoop.simps filter_append Cons.IH envPatches_tool_filter
    by auto
qed

lemma HOME_value:
  assumes "op \<in> set (allPatches admission namespace pod)"
    and "envVarName (Value op) = Some ''HOME''"
  shows "Value op = EnvVarValue \<lparr>evName = ''HOME'', evValue = toolHome namespace\<rparr>"
  using assms
  by (auto simp add: allPatches_def volumesInit_def mountInitLoop_mem volumesLoop_mem
      mountAddLoop_mem envInitLoop_mem envPatches_def nodeSelectorPatches_def Let_def
      envVarName_def volumeAdd_def mountAdd_def envAdd_def split: if_splits)

lemma HasPrefix_literal [simp]:
  "\<not> HasPrefix ''/spec/volumes'' (containerPath i (CHR ''/'' # f))"
  "\<not> HasPrefix ''/spec/volumes/-'' (containerPath i (CHR ''/'' # f))"
  "\<not> HasPrefix ''/spec/nodeSelector'' (containerPath i (CHR ''/'' # f))"
  "\<not> HasPrefix ''/spec/nodeSelector/kubernetes.wmcloud.org~1nfs-mounted''
       (containerPath i (CHR ''/'' # f))"
  "\<not> HasPrefix (containerPath i f) ''/spec/volumes''"
  "\<not> HasPrefix (containerPath i f) ''/spec/volumes/-''"
  "\<not> HasPrefix (containerPath i f) ''/spec/nodeSelector''"
  "\<not> HasPrefix (containerPath i f) ''/spec/nodeSelector/kubernetes.wmcloud.org~1nfs-mounted''"
  by (simp_all add: HasPrefix_iff containerPath_def)

lemma envList_nonempty: "name \<in> evName ` set (envList c) \<Longrightarrow> cEnv c \<noteq> None"
  by (cases "cEnv c") (auto simp: envList_def)

lemma HasPrefix_simps:
  "HasPrefix s [] = True"
  "HasPrefix [] (b # p) = False"
  "HasPrefix (a # s) (b # p) = (a = b \<and> HasPrefix s p)"
  by (auto simp: HasPrefix_def)

lemma env_touch_only_tool:
  assumes "op \<in> set (allPatches admission namespace pod)"
    and "i < length (podContainers pod)"
    and "''HOME'' \<in> evName ` set (envList (podContainers pod ! i))
         \<or> ''NO_HOME'' \<in> evName ` set (envList (podContainers pod ! i))"
    and "HasPrefix (Path op) (containerPath i ''/env'')
         \<or> HasPrefix (containerPath i ''/env'') (Path op)"
  shows "op = envAdd i ''TOOL_DATA_DIR'' (toolHome namespace)"
proof -
  have env: "cEnv (podContainers pod ! i) \<noteq> None"
    using assms(3) envList_nonempty by blast
  have skip: "hasEnvVarSet (podContainers pod ! i) ''HOME''
              \<or> hasEnvVarSet (podContainers pod ! i) ''NO_HOME''"
    using assms(3) by (simp add: hasEnvVarSet_def envLoop_iff)
  from assms(1) consider
      "op \<in> set (volumesInit pod)"
    | "op \<in> set (mountInitLoop 0 (podContainers pod))"
    | "op \<in> set (volumesLoop pod (Volumes admission))"
    | "op \<in> set (envInitLoop namespace 0 (podContainers pod))"
    | "op \<in> set (nodeSelectorPatches pod)"
    by (auto simp: allPatches_def)
  then show ?thesis
  proof cases
    case 1
    with assms(4) show ?thesis
      by (auto simp: volumesInit_def split: if_splits)
  next
    case 2
    with assms(4) show ?thesis
      by (auto simp: mountInitLoop_mem HasPrefix_containerPath HasPrefix_simps)
  next
    case 3
    with assms(4) show ?thesis
      by (auto simp: volumesLoop_mem mountAddLoop_mem volumeAdd_def mountAdd_def
          HasPrefix_containerPath HasPrefix_simps)
  next
    case 4
    then obtain j where j: "j < length (podContainers pod)"
      and mem: "op \<in> set (envPatches namespace j (podContainers pod ! j))"
      by (auto simp: envInitLoop_mem)
    from mem assms(4) have "j = i"
      by (auto simp: envPatches_def envAdd_def HasPrefix_containerPath split: if_splits)
    with mem assms(4) env skip show ?thesis
      by (auto simp: envPatches_def envAdd_def HasPrefix_containerPath HasPrefix_simps
          split: if_splits)
  next
    case 5
    with assms(4) show ?thesis
      by (auto simp: nodeSelectorPatches_def Let_def split: if_splits)
  qed
qed

lemma workingDir_removed:
  assumes "i < length (podContainers pod)"
    and "''NO_HOME'' \<in> evName ` set (envList (podContainers pod ! i))"
    and "cWorkingDir (podContainers pod ! i) \<noteq> []"
  shows "\<lparr>Op = ''remove'', Path = containerPath i ''/workingDir'', Value = NoValue\<rparr>
         \<in> set (allPatches admission namespace pod)"
proof -
  have "hasEnvVarSet (podContainers pod ! i) ''NO_HOME''"
    using assms(2) by (simp add: hasEnvVarSet_def envLoop_iff)
  then have "\<lparr>Op = ''remove'', Path = containerPath i ''/workingDir'', Value = NoValue\<rparr>
         \<in> set (envPatches namespace (0 + i) (podContainers pod ! i))"
    using assms(3) by (simp add: envPatches_def)
  then have "\<lparr>Op = ''remove'', Path = containerPath i ''/workingDir'', Value = NoValue\<rparr>
         \<in> set (envInitLoop namespace 0 (podContainers pod))"
    using assms(1) unfolding envInitLoop_mem by blast
  then show ?thesis by (simp add: allPatches_def)
qed

section \<open>Environment variables\<close>

text \<open>
  C5. On the full path of an allowed request, the patch holds exactly one operation that
  appends a \<^verbatim>\<open>TOOL_DATA_DIR\<close> entry to the env of container \<open>i\<close>, for every container
  index \<open>i\<close>, whatever the env of the container holds; its value is \<^verbatim>\<open>/data/project/\<close>
  followed by the namespace without its leading \<^verbatim>\<open>tool-\<close>, and every \<^verbatim>\<open>HOME\<close> entry the
  patch adds has that same value.
\<close>

theorem tool_data_dir_once:
  assumes dec: "unmarshal (reqObject req) = Inr pod"
    and full: "getLabelOrDefault pod MountConfigLabel MountAll = MountAll"
    and ok: "Allowed (HandleAdmission unmarshal marshal admission req)"
    and i: "i < length (podContainers pod)"
  shows "Patch (HandleAdmission unmarshal marshal admission req) =
           marshalled (marshal (allPatches admission (reqNamespace req) pod))
       \<and> filter (\<lambda>op. Path op = ''/spec/containers/'' @ fmt_d i @ ''/env/-'' \<and>
                        envVarName (Value op) = Some ''TOOL_DATA_DIR'')
           (allPatches admission (reqNamespace req) pod) =
           [\<lparr>Op = ''add'', Path = ''/spec/containers/'' @ fmt_d i @ ''/env/-'',
             Value = EnvVarValue \<lparr>evName = ''TOOL_DATA_DIR'',
               evValue = ''/data/project/'' @ drop 5 (reqNamespace req)\<rparr>\<rparr>]
       \<and> (\<forall>op \<in> set (allPatches admission (reqNamespace req) pod).
             envVarName (Value op) = Some ''HOME'' \<longrightarrow>
             Value op = EnvVarValue \<lparr>evName = ''HOME'',
               evValue = ''/data/project/'' @ drop 5 (reqNamespace req)\<rparr>)"
proof -
  note facts = all_path_allowed [OF dec full ok]
  have home: "toolHome (reqNamespace req) = ''/data/project/'' @ drop 5 (reqNamespace req)"
    by (rule toolHome_prefix [OF facts(1)])
  let ?P = "\<lambda>op. Path op = containerPath i ''/env/-'' \<and>
                  envVarName (Value op) = Some ''TOOL_DATA_DIR''"
  have a: "filter ?P (volumesInit pod) = []"
    by (simp add: volumesInit_def)
  have b: "filter ?P (mountInitLoop 0 (podContainers pod)) = []"
    by (rule filter_Nil_block) (auto simp: mountInitLoop_mem containerPath_eq)
  have c: "filter ?P (volumesLoop pod (Volumes admission)) = []"
    by (rule filter_Nil_block)
      (auto simp: volumesLoop_mem mountAddLoop_mem volumeAdd_def mountAdd_def containerPath_eq)
  have d: "filter ?P (envInitLoop (reqNamespace req) 0 (podContainers pod)) =
      [envAdd i ''TOOL_DATA_DIR'' (toolHome (reqNamespace req))]"
    using i by (simp add: envInitLoop_tool_filter)
  have e: "filter ?P (nodeSelectorPatches pod) = []"
    by (simp add: nodeSelectorPatches_def Let_def)
  have "filter ?P (allPatches admission (reqNamespace req) pod) =
      [envAdd i ''TOOL_DATA_DIR'' (toolHome (reqNamespace req))]"
    unfolding allPatches_def filter_append a b c d e by simp
  then have one: "filter (\<lambda>op. Path op = ''/spec/containers/'' @ fmt_d i @ ''/env/-'' \<and>
                        envVarName (Value op) = Some ''TOOL_DATA_DIR'')
           (allPatches admission (reqNamespace req) pod) =
           [\<lparr>Op = ''add'', Path = ''/spec/containers/'' @ fmt_d i @ ''/env/-'',
             Value = EnvVarValue \<lparr>evName = ''TOOL_DATA_DIR'',
               evValue = ''/data/project/'' @ drop 5 (reqNamespace req)\<rparr>\<rparr>]"
    by (simp add: envAdd_def containerPath_def home)
  have two: "\<forall>op \<in> set (allPatches admission (reqNamespace req) pod).
             envVarName (Value op) = Some ''HOME'' \<longrightarrow>
             Value op = EnvVarValue \<lparr>evName = ''HOME'',
               evValue = ''/data/project/'' @ drop 5 (reqNamespace req)\<rparr>"
    using HOME_value [of _ admission "reqNamespace req" pod] by (simp add: home)
  from facts(3) one two show ?thesis by blast
qed

theorem tool_data_dir_once_witness:
  "Allowed (HandleAdmission Inr Inr testAdmission (testRequest ''tool-test'' barePod))
   \<and> Patch (HandleAdmission Inr Inr testAdmission (testRequest ''tool-test'' barePod)) =
       Some (allPatches testAdmission ''tool-test'' barePod)
   \<and> filter (\<lambda>op. Path op = ''/spec/containers/0/env/-'' \<and>
                    envVarName (Value op) = Some ''TOOL_DATA_DIR'')
        (allPatches testAdmission ''tool-test'' barePod) =
        [\<lparr>Op = ''add'', Path = ''/spec/containers/0/env/-'',
          Value = EnvVarValue \<lparr>evName = ''TOOL_DATA_DIR'',
            evValue = ''/data/project/test''\<rparr>\<rparr>]"
proof -
  have ok: "Allowed (HandleAdmission Inr
      (Inr :: PatchOperation list \<Rightarrow> string + PatchOperation list) testAdmission
      (testRequest ''tool-test'' barePod))"
    by (simp add: HandleAdmission_def Let_def testRequest_def barePod_def
        getLabelOrDefault_def MountAll_def MountNone_def HasPrefix_def patchResponse_def)
  from tool_data_dir_once
    [where unmarshal = Inr and marshal = Inr and admission = testAdmission
       and req = "testRequest ''tool-test'' barePod" and pod = barePod and i = 0, OF _ _ ok]
  show ?thesis
    using ok
    by (simp add: testRequest_def getLabelOrDefault_def barePod_def marshalled_def fmt_d_0)
qed

text \<open>
  C4. On the full path of an allowed request, for a container \<open>i\<close> that defines \<^verbatim>\<open>HOME\<close>
  or \<^verbatim>\<open>NO_HOME\<close>: the only operation whose path lies at, above or below the env array
  of the container is the append of \<^verbatim>\<open>TOOL_DATA_DIR\<close>, so no operation adds, removes or
  replaces \<^verbatim>\<open>HOME\<close> there; and when \<^verbatim>\<open>NO_HOME\<close> is defined and the working directory is
  not empty, the patch removes \<^verbatim>\<open>/spec/containers/i/workingDir\<close>.
\<close>

theorem home_precedence:
  assumes dec: "unmarshal (reqObject req) = Inr pod"
    and full: "getLabelOrDefault pod MountConfigLabel MountAll = MountAll"
    and ok: "Allowed (HandleAdmission unmarshal marshal admission req)"
    and i: "i < length (podContainers pod)"
    and skip: "''HOME'' \<in> evName ` set (envList (podContainers pod ! i))
               \<or> ''NO_HOME'' \<in> evName ` set (envList (podContainers pod ! i))"
  shows "Patch (HandleAdmission unmarshal marshal admission req) =
           marshalled (marshal (allPatches admission (reqNamespace req) pod))
       \<and> (\<forall>op \<in> set (allPatches admission (reqNamespace req) pod).
             HasPrefix (Path op) (''/spec/containers/'' @ fmt_d i @ ''/env'')
             \<or> HasPrefix (''/spec/containers/'' @ fmt_d i @ ''/env'') (Path op) \<longrightarrow>
             Op op = ''add''
             \<and> Path op = ''/spec/containers/'' @ fmt_d i @ ''/env/-''
             \<and> envVarName (Value op) = Some ''TOOL_DATA_DIR'')
       \<and> (''NO_HOME'' \<in> evName ` set (envList (podContainers pod ! i))
            \<and> cWorkingDir (podContainers pod ! i) \<noteq> [] \<longrightarrow>
          \<lparr>Op = ''remove'', Path = ''/spec/containers/'' @ fmt_d i @ ''/workingDir'',
           Value = NoValue\<rparr> \<in> set (allPatches admission (reqNamespace req) pod))"
proof -
  note facts = all_path_allowed [OF dec full ok]
  have touch: "\<forall>op \<in> set (allPatches admission (reqNamespace req) pod).
             HasPrefix (Path op) (''/spec/containers/'' @ fmt_d i @ ''/env'')
             \<or> HasPrefix (''/spec/containers/'' @ fmt_d i @ ''/env'') (Path op) \<longrightarrow>
             Op op = ''add''
             \<and> Path op = ''/spec/containers/'' @ fmt_d i @ ''/env/-''
             \<and> envVarName (Value op) = Some ''TOOL_DATA_DIR''"
  proof (intro ballI impI)
    fix op
    assume "op \<in> set (allPatches admission (reqNamespace req) pod)"
      and "HasPrefix (Path op) (''/spec/containers/'' @ fmt_d i @ ''/env'')
             \<or> HasPrefix (''/spec/containers/'' @ fmt_d i @ ''/env'') (Path op)"
    then have "op = envAdd i ''TOOL_DATA_DIR'' (toolHome (reqNamespace req))"
      using env_touch_only_tool [OF _ i skip, of op admission "reqNamespace req"]
      by (simp add: containerPath_def)
    then show "Op op = ''add''
             \<and> Path op = ''/spec/containers/'' @ fmt_d i @ ''/env/-''
             \<and> envVarName (Value op) = Some ''TOOL_DATA_DIR''"
      by (simp add: envAdd_def containerPath_def envVarName_def)
  qed
  have wd: "''NO_HOME'' \<in> evName ` set (envList (podContainers pod ! i))
            \<and> cWorkingDir (podContainers pod ! i) \<noteq> [] \<longrightarrow>
          \<lparr>Op = ''remove'', Path = ''/spec/containers/'' @ fmt_d i @ ''/workingDir'',
           Value = NoValue\<rparr> \<in> set (allPatches admission (reqNamespace req) pod)"
    using workingDir_removed [OF i, of admission "reqNamespace req"]
    by (simp add: containerPath_def)
  from facts(3) touch wd show ?thesis by blast
qed

theorem home_precedence_witness:
  "Allowed (HandleAdmission Inr Inr testAdmission (testRequest ''tool-test'' dummyPod))
   \<and> Patch (HandleAdmission Inr Inr testAdmission (testRequest ''tool-test'' dummyPod)) =
       Some (allPatches testAdmission ''tool-test'' dummyPod)
   \<and> \<lparr>Op = ''remove'', Path = ''/spec/containers/0/workingDir'', Value = NoValue\<rparr>
       \<in> set (allPatches testAdmission ''tool-test'' dummyPod)
   \<and> \<lparr>Op = ''add'', Path = ''/spec/containers/0/env/-'',
        Value = EnvVarValue \<lparr>evName = ''HOME'', evValue = ''/data/project/test''\<rparr>\<rparr>
       \<notin> set (allPatches testAdmission ''tool-test'' dummyPod)"
proof -
  have ok: "Allowed (HandleAdmission Inr
      (Inr :: PatchOperation list \<Rightarrow> string + PatchOperation list) testAdmission
      (testRequest ''tool-test'' dummyPod))"
    by (simp add: HandleAdmission_def Let_def testRequest_def dummyPod_def
        getLabelOrDefault_def MountAll_def MountNone_def HasPrefix_def patchResponse_def)
  have skip: "''HOME'' \<in> evName ` set (envList (podContainers dummyPod ! 0))
      \<or> ''NO_HOME'' \<in> evName ` set (envList (podContainers dummyPod ! 0))"
    by (simp add: dummyPod_def envList_def)
  from home_precedence
    [where unmarshal = Inr and marshal = Inr and admission = testAdmission
       and req = "testRequest ''tool-test'' dummyPod" and pod = dummyPod and i = 0,
     OF _ _ ok _ skip]
  have "Patch (HandleAdmission Inr Inr testAdmission (testRequest ''tool-test'' dummyPod)) =
       Some (allPatches testAdmission ''tool-test'' dummyPod)"
    and all: "\<forall>op \<in> set (allPatches testAdmission ''tool-test'' dummyPod).
             HasPrefix (Path op) ''/spec/containers/0/env''
             \<or> HasPrefix ''/spec/containers/0/env'' (Path op) \<longrightarrow>
             Op op = ''add''
             \<and> Path op = ''/spec/containers/0/env/-''
             \<and> envVarName (Value op) = Some ''TOOL_DATA_DIR''"
    and "\<lparr>Op = ''remove'', Path = ''/spec/containers/0/workingDir'', Value = NoValue\<rparr>
       \<in> set (allPatches testAdmission ''tool-test'' dummyPod)"
    by (simp_all add: testRequest_def getLabelOrDefault_def dummyPod_def marshalled_def
        fmt_d_0 envList_def)
  moreover have "\<lparr>Op = ''add'', Path = ''/spec/containers/0/env/-'',
        Value = EnvVarValue \<lparr>evName = ''HOME'', evValue = ''/data/project/test''\<rparr>\<rparr>
       \<notin> set (allPatches testAdmission ''tool-test'' dummyPod)"
    using all by (auto simp: HasPrefix_def envVarName_def)
  ultimately show ?thesis using ok by simp
qed

section \<open>The order of the operations\<close>

lemma allowed_emitted:
  assumes "unmarshal (reqObject req) = Inr pod"
    and "Allowed (HandleAdmission unmarshal marshal admission req)"
  shows "Patch (HandleAdmission unmarshal marshal admission req) =
           marshalled (marshal (emittedPatches admission (reqNamespace req) pod))"
  using assms
  by (auto simp add: HandleAdmission_def errorResponse_def patchResponse_def Let_def
      MountAll_def MountNone_def marshalled_def emittedPatches_def
      split: sum.splits option.splits if_splits)

lemma append_split:
  assumes "xs @ ys = before @ op # after"
  shows "(\<exists>a. xs = before @ op # a) \<or> (\<exists>b. before = xs @ b \<and> ys = b @ op # after)"
  using assms by (auto simp: append_eq_append_conv2 append_eq_Cons_conv)

lemma five_blocks:
  assumes "A @ B @ C @ D @ E = before @ op # after"
  shows "op \<in> set A \<or> op \<in> set B
       \<or> (op \<in> set C \<and> set A \<union> set B \<subseteq> set before)
       \<or> (\<exists>b a. D = b @ op # a \<and> set b \<subseteq> set before)
       \<or> op \<in> set E"
proof -
  from append_split [OF assms] show ?thesis
  proof
    assume "\<exists>a. A = before @ op # a"
    then show ?thesis by auto
  next
    assume "\<exists>b. before = A @ b \<and> B @ C @ D @ E = b @ op # after"
    then obtain b1 where b1: "before = A @ b1" "B @ C @ D @ E = b1 @ op # after" by blast
    from append_split [OF b1(2)] show ?thesis
    proof
      assume "\<exists>a. B = b1 @ op # a"
      then show ?thesis by auto
    next
      assume "\<exists>b. b1 = B @ b \<and> C @ D @ E = b @ op # after"
      then obtain b2 where b2: "b1 = B @ b2" "C @ D @ E = b2 @ op # after" by blast
      from append_split [OF b2(2)] show ?thesis
      proof
        assume "\<exists>a. C = b2 @ op # a"
        then show ?thesis using b1(1) b2(1) by auto
      next
        assume "\<exists>b. b2 = C @ b \<and> D @ E = b @ op # after"
        then obtain b3 where b3: "b2 = C @ b3" "D @ E = b3 @ op # after" by blast
        from append_split [OF b3(2)] show ?thesis
        proof
          assume "\<exists>a. D = b3 @ op # a"
          then obtain a where "D = b3 @ op # a" ..
          moreover have "set b3 \<subseteq> set before"
            using b1(1) b2(1) b3(1) by auto
          ultimately show ?thesis by blast
        next
          assume "\<exists>b. b3 = D @ b \<and> E = b @ op # after"
          then show ?thesis by auto
        qed
      qed
    qed
  qed
qed

lemma ends_dash: "s = parent @ ''/-'' \<Longrightarrow> last s = CHR ''-''"
  by simp

lemma last_containerPath: "f \<noteq> [] \<Longrightarrow> last (containerPath i f) = last f"
  by (simp add: containerPath_def)

lemma containerPath_append: "containerPath i (f @ g) = containerPath i f @ g"
  by (simp add: containerPath_def)

lemma head_before:
  assumes "x # rest = b @ op # a" and "op \<noteq> x"
  shows "x \<in> set b"
  using assms by (cases b) auto

lemma envPatches_append_prepared:
  assumes split: "envPatches namespace k c = b @ op # a"
    and add: "Op op = ''add''"
    and path: "Path op = parent @ ''/-''"
  shows "parent = containerPath k ''/env'' \<and>
         (cEnv c \<noteq> None \<or>
          \<lparr>Op = ''add'', Path = containerPath k ''/env'', Value = EmptyEnvArray\<rparr> \<in> set b)"
proof -
  have mem: "op \<in> set (envPatches namespace k c)"
    unfolding split by simp
  have last: "last (Path op) = CHR ''-''"
    using path by simp
  from mem last add have p: "Path op = containerPath k ''/env/-''"
    by (auto simp: envPatches_def envAdd_def last_containerPath split: if_splits)
  have "containerPath k ''/env/-'' = containerPath k ''/env'' @ ''/-''"
    by (simp add: containerPath_def)
  with p path have parent: "parent = containerPath k ''/env''"
    by simp
  have "\<lparr>Op = ''add'', Path = containerPath k ''/env'', Value = EmptyEnvArray\<rparr> \<in> set b"
    if none: "cEnv c = None"
  proof -
    let ?init = "\<lparr>Op = ''add'', Path = containerPath k ''/env'', Value = EmptyEnvArray\<rparr>"
    obtain rest where "envPatches namespace k c = ?init # rest"
      using none by (simp add: envPatches_def)
    with split have "?init # rest = b @ op # a" by simp
    moreover have "op \<noteq> ?init"
      using last by (auto simp: last_containerPath)
    ultimately show ?thesis by (rule head_before)
  qed
  with parent show ?thesis by blast
qed

lemma envInitLoop_append_prepared:
  assumes "envInitLoop namespace k cs = b @ op # a"
    and "Op op = ''add''"
    and "Path op = parent @ ''/-''"
  shows "\<exists>j < length cs. parent = containerPath (k + j) ''/env'' \<and>
         (cEnv (cs ! j) \<noteq> None \<or>
          \<lparr>Op = ''add'', Path = containerPath (k + j) ''/env'', Value = EmptyEnvArray\<rparr>
            \<in> set b)"
  using assms
proof (induction cs arbitrary: k b)
  case Nil
  then show ?case by simp
next
  case (Cons c cs)
  from Cons.prems(1)
  have "envPatches namespace k c @ envInitLoop namespace (Suc k) cs = b @ op # a"
    by simp
  from append_split [OF this] show ?case
  proof
    assume "\<exists>a'. envPatches namespace k c = b @ op # a'"
    then obtain a' where "envPatches namespace k c = b @ op # a'" ..
    from envPatches_append_prepared [OF this Cons.prems(2,3)]
    show ?thesis by (intro exI [of _ 0]) simp
  next
    assume "\<exists>b'. b = envPatches namespace k c @ b' \<and>
                 envInitLoop namespace (Suc k) cs = b' @ op # a"
    then obtain b' where b: "b = envPatches namespace k c @ b'"
      and rest: "envInitLoop namespace (Suc k) cs = b' @ op # a" by blast
    from Cons.IH [OF rest Cons.prems(2,3)]
    obtain j where "j < length cs" "parent = containerPath (Suc k + j) ''/env''"
      "cEnv (cs ! j) \<noteq> None \<or>
          \<lparr>Op = ''add'', Path = containerPath (Suc k + j) ''/env'', Value = EmptyEnvArray\<rparr>
            \<in> set b'"
      by blast
    then show ?thesis
      using b by (intro exI [of _ "Suc j"]) auto
  qed
qed

lemma arrayOnPod_mounts:
  "j < length (podContainers pod) \<Longrightarrow> cVolumeMounts (podContainers pod ! j) \<noteq> [] \<Longrightarrow>
   arrayOnPod pod (containerPath j ''/volumeMounts'')"
  unfolding arrayOnPod_def list_ex_iff by (intro disjI2 bexI [of _ j] disjI1) simp_all

lemma arrayOnPod_env:
  "j < length (podContainers pod) \<Longrightarrow> cEnv (podContainers pod ! j) \<noteq> None \<Longrightarrow>
   arrayOnPod pod (containerPath j ''/env'')"
  unfolding arrayOnPod_def list_ex_iff by (rule disjI2, rule bexI [of _ j], rule disjI2) simp_all

lemma allPatches_append_prepared:
  assumes split: "allPatches admission namespace pod = before @ op # after"
    and add: "Op op = ''add''"
    and path: "Path op = parent @ ''/-''"
  shows "(\<exists>c \<in> set before. createsArray parent c) \<or> arrayOnPod pod parent"
proof -
  have last: "last (Path op) = CHR ''-''"
    using path by simp
  from split have "volumesInit pod @ mountInitLoop 0 (podContainers pod)
      @ volumesLoop pod (Volumes admission)
      @ envInitLoop namespace 0 (podContainers pod) @ nodeSelectorPatches pod
      = before @ op # after"
    by (simp add: allPatches_def)
  from five_blocks [OF this] consider
      (A) "op \<in> set (volumesInit pod)"
    | (B) "op \<in> set (mountInitLoop 0 (podContainers pod))"
    | (C) "op \<in> set (volumesLoop pod (Volumes admission))"
          "set (volumesInit pod) \<union> set (mountInitLoop 0 (podContainers pod)) \<subseteq> set before"
    | (D) b a where "envInitLoop namespace 0 (podContainers pod) = b @ op # a"
          "set b \<subseteq> set before"
    | (E) "op \<in> set (nodeSelectorPatches pod)"
    by blast
  then show ?thesis
  proof cases
    case A
    with last show ?thesis by (auto simp: volumesInit_def split: if_splits)
  next
    case B
    with last show ?thesis by (auto simp: mountInitLoop_mem last_containerPath)
  next
    case C
    from C(1) obtain v where v: "v \<in> set (Volumes admission)"
      and cases: "op = volumeAdd v \<or> op \<in> set (mountAddLoop v 0 (podContainers pod))"
      by (auto simp: volumesLoop_mem)
    from cases show ?thesis
    proof
      assume "op = volumeAdd v"
      with path have "''/spec/volumes'' @ ''/-'' = parent @ ''/-''"
        by (simp add: volumeAdd_def)
      then have parent: "parent = ''/spec/volumes''"
        by (simp only: append_same_eq)
      show ?thesis
      proof (cases "podVolumes pod = []")
        case True
        then have "\<lparr>Op = ''add'', Path = ''/spec/volumes'', Value = EmptyStringArray\<rparr>
            \<in> set before"
          using C(2) by (simp add: volumesInit_def)
        then show ?thesis
          unfolding parent createsArray_def by (intro disjI1 bexI) simp_all
      next
        case False
        then show ?thesis by (simp add: parent arrayOnPod_def)
      qed
    next
      assume "op \<in> set (mountAddLoop v 0 (podContainers pod))"
      then obtain j where j: "j < length (podContainers pod)" and op: "op = mountAdd j v"
        by (auto simp: mountAddLoop_mem)
      from op path have "containerPath j ''/volumeMounts'' @ ''/-'' = parent @ ''/-''"
        by (simp add: mountAdd_def containerPath_def)
      then have parent: "parent = containerPath j ''/volumeMounts''"
        by (simp only: append_same_eq)
      show ?thesis
      proof (cases "cVolumeMounts (podContainers pod ! j) = []")
        case True
        with j have "\<lparr>Op = ''add'', Path = containerPath (0 + j) ''/volumeMounts'',
            Value = EmptyStringArray\<rparr> \<in> set (mountInitLoop 0 (podContainers pod))"
          unfolding mountInitLoop_mem by blast
        with C(2) have "\<lparr>Op = ''add'', Path = containerPath j ''/volumeMounts'',
            Value = EmptyStringArray\<rparr> \<in> set before"
          by auto
        then show ?thesis
          unfolding parent createsArray_def by (intro disjI1 bexI) simp_all
      next
        case False
        with j show ?thesis
          unfolding parent by (intro disjI2 arrayOnPod_mounts)
      qed
    qed
  next
    case D
    from envInitLoop_append_prepared [OF D(1) add path]
    obtain j where j: "j < length (podContainers pod)"
      and parent: "parent = containerPath j ''/env''"
      and prepared: "cEnv (podContainers pod ! j) \<noteq> None \<or>
          \<lparr>Op = ''add'', Path = containerPath j ''/env'', Value = EmptyEnvArray\<rparr> \<in> set b"
      by auto
    from prepared show ?thesis
    proof
      assume "cEnv (podContainers pod ! j) \<noteq> None"
      with j show ?thesis
        unfolding parent by (intro disjI2 arrayOnPod_env)
    next
      assume "\<lparr>Op = ''add'', Path = containerPath j ''/env'', Value = EmptyEnvArray\<rparr> \<in> set b"
      with D(2) have "\<lparr>Op = ''add'', Path = containerPath j ''/env'', Value = EmptyEnvArray\<rparr>
          \<in> set before" by auto
      then show ?thesis
        unfolding parent createsArray_def by (intro disjI1 bexI) simp_all
    qed
  next
    case E
    with last show ?thesis
      by (auto simp: nodeSelectorPatches_def Let_def split: if_splits)
  qed
qed

lemma barePod_patches:
  "allPatches testAdmission ''tool-test'' barePod =
          [\<lparr>Op = ''add'', Path = ''/spec/volumes'', Value = EmptyStringArray\<rparr>,
           \<lparr>Op = ''add'', Path = ''/spec/containers/0/volumeMounts'', Value = EmptyStringArray\<rparr>,
           \<lparr>Op = ''add'', Path = ''/spec/volumes/-'',
            Value = VolumeValue \<lparr>pvName = ''home'',
              pvHostPath = Some \<lparr>hpPath = ''/data/project'', hpType = Some []\<rparr>\<rparr>\<rparr>,
           \<lparr>Op = ''add'', Path = ''/spec/containers/0/volumeMounts/-'',
            Value = VolumeMountValue
              \<lparr>vmMountPath = ''/data/project'', vmName = ''home'', vmReadOnly = False\<rparr>\<rparr>,
           \<lparr>Op = ''add'', Path = ''/spec/volumes/-'',
            Value = VolumeValue \<lparr>pvName = ''etc-ldap'',
              pvHostPath = Some \<lparr>hpPath = ''/etc/ldap'', hpType = Some []\<rparr>\<rparr>\<rparr>,
           \<lparr>Op = ''add'', Path = ''/spec/containers/0/volumeMounts/-'',
            Value = VolumeMountValue
              \<lparr>vmMountPath = ''/etc/ldap'', vmName = ''etc-ldap'', vmReadOnly = True\<rparr>\<rparr>,
           \<lparr>Op = ''add'', Path = ''/spec/containers/0/env'', Value = EmptyEnvArray\<rparr>,
           \<lparr>Op = ''add'', Path = ''/spec/containers/0/env/-'',
            Value = EnvVarValue \<lparr>evName = ''HOME'', evValue = ''/data/project/test''\<rparr>\<rparr>,
           \<lparr>Op = ''add'', Path = ''/spec/containers/0/env/-'',
            Value = EnvVarValue
              \<lparr>evName = ''TOOL_DATA_DIR'', evValue = ''/data/project/test''\<rparr>\<rparr>,
           \<lparr>Op = ''add'',
            Path = ''/spec/nodeSelector/kubernetes.wmcloud.org~1nfs-mounted'',
            Value = StringValue ''true''\<rparr>]"
  by (simp add: barePod_def testAdmission_def allPatches_def volumesInit_def testVolumes_def
      hasVolumeByName_def hasMountByPath_def volumeAdd_def mountAdd_def envPatches_def
      hasEnvVarSet_def envList_def envAdd_def containerPath_def fmt_d_0 toolHome_test
      nodeSelectorPatches_def nfsLabel_def)

lemma barePod_allowed:
  "HandleAdmission Inr Inr admission (testRequest ''tool-test'' barePod) =
     patchResponse ''e911857d-c318-11e8-bbad-025000000001'' ''Volumes mounted''
       (Some (allPatches admission ''tool-test'' barePod))"
  by (simp add: HandleAdmission_def Let_def testRequest_def barePod_def
      getLabelOrDefault_def MountAll_def MountNone_def HasPrefix_def)

text \<open>
  C7. In every allowed response, wherever the patch handed to the encoder holds an
  \<^verbatim>\<open>add\<close> whose path is \<open>parent\<close> followed by \<^verbatim>\<open>/-\<close>, an operation that creates the array at
  \<open>parent\<close> stands earlier in the list, or the array is on the decoded Pod.
\<close>

theorem appends_after_creation:
  assumes dec: "unmarshal (reqObject req) = Inr pod"
    and ok: "Allowed (HandleAdmission unmarshal marshal admission req)"
    and split: "emittedPatches admission (reqNamespace req) pod = before @ op # after"
    and add: "Op op = ''add''"
    and path: "Path op = parent @ ''/-''"
  shows "Patch (HandleAdmission unmarshal marshal admission req) =
           marshalled (marshal (emittedPatches admission (reqNamespace req) pod))
       \<and> ((\<exists>c \<in> set before. createsArray parent c) \<or> arrayOnPod pod parent)"
proof (cases "getLabelOrDefault pod MountConfigLabel MountAll = MountNone")
  case True
  with split have "op \<in> set (volumesInit pod)"
    by (simp add: emittedPatches_def)
  with path have False
    by (auto simp: volumesInit_def split: if_splits)
  then show ?thesis ..
next
  case False
  with split have "allPatches admission (reqNamespace req) pod = before @ op # after"
    by (simp add: emittedPatches_def)
  from allPatches_append_prepared [OF this add path] allowed_emitted [OF dec ok]
  show ?thesis by blast
qed

theorem appends_after_creation_witness:
  "Allowed (HandleAdmission Inr Inr testAdmission (testRequest ''tool-test'' barePod))
   \<and> \<not> arrayOnPod barePod ''/spec/containers/0/env''
   \<and> list_ex (createsArray ''/spec/containers/0/env'')
        (take 7 (emittedPatches testAdmission ''tool-test'' barePod))"
proof -
  have ok: "Allowed (HandleAdmission Inr
      (Inr :: PatchOperation list \<Rightarrow> string + PatchOperation list) testAdmission
      (testRequest ''tool-test'' barePod))"
    by (simp add: barePod_allowed patchResponse_def)
  have em: "emittedPatches testAdmission ''tool-test'' barePod =
      allPatches testAdmission ''tool-test'' barePod"
    by (simp add: emittedPatches_def getLabelOrDefault_def barePod_def MountAll_def
        MountNone_def)
  have absent: "\<not> arrayOnPod barePod ''/spec/containers/0/env''"
    by (simp add: arrayOnPod_def barePod_def containerPath_def fmt_d_0)
  from appends_after_creation
    [where unmarshal = Inr and marshal = Inr and admission = testAdmission
       and req = "testRequest ''tool-test'' barePod" and pod = barePod
       and before = "take 7 (allPatches testAdmission ''tool-test'' barePod)"
       and op = "allPatches testAdmission ''tool-test'' barePod ! 7"
       and after = "drop 8 (allPatches testAdmission ''tool-test'' barePod)"
       and parent = "''/spec/containers/0/env''", OF _ ok]
  have "(\<exists>c \<in> set (take 7 (allPatches testAdmission ''tool-test'' barePod)).
          createsArray ''/spec/containers/0/env'' c)
        \<or> arrayOnPod barePod ''/spec/containers/0/env''"
    by (simp add: testRequest_def em barePod_patches)
  with absent ok show ?thesis
    by (simp add: em list_ex_iff)
qed

section \<open>Applying the patch and running again\<close>


lemma find_index:
  assumes "i < n"
  shows "find (\<lambda>j. HasPrefix (containerPath i (CHR ''/'' # f)) (containerPath j ''/''))
           [0 ..< n] = Some i"
proof -
  have "\<And>j. HasPrefix (containerPath i (CHR ''/'' # f)) (containerPath j ''/'') = (j = i)"
    by (simp add: HasPrefix_containerPath HasPrefix_simps)
  then have "find (\<lambda>j. HasPrefix (containerPath i (CHR ''/'' # f)) (containerPath j ''/''))
           [0 ..< n] = find (\<lambda>j. j = i) [0 ..< n]"
    by simp
  also have "\<dots> = Some i"
    unfolding find_Some_iff using assms by (intro exI [of _ i]) simp
  finally show ?thesis .
qed

lemma drop_containerPath: "drop (length (containerPath i [])) (containerPath i f) = f"
  by (simp add: containerPath_def)

lemma applyOp_record:
  "i < length (sdContainers spec) \<Longrightarrow>
   applyOp \<lparr>Op = name, Path = containerPath i (CHR ''/'' # f), Value = v\<rparr> spec =
     (case applyContainerOp name (CHR ''/'' # f) v (sdContainers spec ! i) of
        None \<Rightarrow> None
      | Some cd \<Rightarrow> Some (spec\<lparr>sdContainers := (sdContainers spec)[i := cd]\<rparr>))"
  by (simp add: applyOp_def find_index drop_containerPath)



















lemma append_needs_array:
  "sdVolumes spec = None \<Longrightarrow> applyOps [volumeAdd v] spec = None"
  "i < length (sdContainers spec) \<Longrightarrow> cdVolumeMounts (sdContainers spec ! i) = None \<Longrightarrow>
     applyOps [mountAdd i v] spec = None"
  "i < length (sdContainers spec) \<Longrightarrow> cdEnv (sdContainers spec ! i) = None \<Longrightarrow>
     applyOps [envAdd i name v'] spec = None"
proof -
  show "sdVolumes spec = None \<Longrightarrow> applyOps [volumeAdd v] spec = None"
    by (simp add: applyOp_def volumeAdd_def)
  show "i < length (sdContainers spec) \<Longrightarrow> cdVolumeMounts (sdContainers spec ! i) = None \<Longrightarrow>
     applyOps [mountAdd i v] spec = None"
    by (simp add: mountAdd_def applyOp_record applyContainerOp_def)
  show "i < length (sdContainers spec) \<Longrightarrow> cdEnv (sdContainers spec ! i) = None \<Longrightarrow>
     applyOps [envAdd i name v'] spec = None"
    by (simp add: envAdd_def applyOp_record applyContainerOp_def)
qed




















end
